theory Spec2Isabelle
  imports Complex_Main
begin

section \<open>Data model (shared/schema.ts)\<close>

text \<open>
  Timestamps (\<open>Date\<close>) are milliseconds since the epoch, an \<open>int\<close>; identifiers are
  strings. The \<open>decimal\<close> columns of the attendance table are strings in the inferred
  TypeScript type, as the client sends them (\<open>latitude?.toString()\<close>).
\<close>

datatype attendance_status = Present | Absent | Manual

datatype geofencing_status = Inside | Outside | Unknown

record Session =
  s_id :: string
  s_facultyId :: string
  s_semester :: int
  s_branch :: string
  s_subject :: string
  s_isActive :: bool
  s_geofencingEnabled :: bool
  s_createdAt :: int
  s_endedAt :: "int option"

record InsertSession =
  is_facultyId :: string
  is_semester :: int
  is_branch :: string
  is_subject :: string
  is_isActive :: "bool option"
  is_geofencingEnabled :: "bool option"

text \<open>\<open>Partial<Session>\<close>: every field may be absent; \<open>endedAt\<close> may be present and null.\<close>

record SessionUpdates =
  u_id :: "string option"
  u_facultyId :: "string option"
  u_semester :: "int option"
  u_branch :: "string option"
  u_subject :: "string option"
  u_isActive :: "bool option"
  u_geofencingEnabled :: "bool option"
  u_createdAt :: "int option"
  u_endedAt :: "int option option"

record QRToken =
  qt_id :: string
  qt_sessionId :: string
  qt_token :: string
  qt_expiresAt :: int
  qt_createdAt :: int

record InsertQRToken =
  iq_sessionId :: string
  iq_token :: string
  iq_expiresAt :: int

record Attendance =
  a_id :: string
  a_sessionId :: string
  a_studentId :: string
  a_status :: attendance_status
  a_geofencingStatus :: geofencing_status
  a_latitude :: "string option"
  a_longitude :: "string option"
  a_markedBy :: "string option"
  a_createdAt :: int

record InsertAttendance =
  ia_sessionId :: string
  ia_studentId :: string
  ia_status :: attendance_status
  ia_geofencingStatus :: "geofencing_status option"
  ia_latitude :: "string option"
  ia_longitude :: "string option"
  ia_markedBy :: "string option"


section \<open>The in-memory store (server/storage.ts, class MemStorage)\<close>

text \<open>
  A JavaScript \<open>Map\<close> iterates in insertion order, and \<open>set\<close> on a key that is already
  there replaces the value in place: an association list with \<open>map_set\<close>. \<open>Map.get\<close> is
  \<open>map_of\<close>, \<open>Map.values()\<close> is \<open>map_values\<close>.
\<close>

fun map_set :: "'k \<Rightarrow> 'v \<Rightarrow> ('k \<times> 'v) list \<Rightarrow> ('k \<times> 'v) list" where
  "map_set k v [] = [(k, v)]"
| "map_set k v ((k', v') # m) =
     (if k' = k then (k, v) # m else (k', v') # map_set k v m)"

definition map_values :: "('k \<times> 'v) list \<Rightarrow> 'v list" where
  "map_values m = map snd m"

record MemStorage =
  sessions :: "(string \<times> Session) list"
  attendance :: "(string \<times> Attendance) list"
  qrTokens :: "(string \<times> QRToken) list"

definition emptyStorage :: MemStorage where
  "emptyStorage = \<lparr>sessions = [], attendance = [], qrTokens = []\<rparr>"

text \<open>
  \<open>randomUUID()\<close> and \<open>new Date()\<close> are the two inputs a method reads from its
  environment; each method takes them as the arguments \<open>uuid\<close> and \<open>now\<close>.
\<close>

subsection \<open>Sessions\<close>

definition getSession :: "MemStorage \<Rightarrow> string \<Rightarrow> Session option" where
  "getSession st ident = map_of (sessions st) ident"

definition createSession ::
    "MemStorage \<Rightarrow> string \<Rightarrow> int \<Rightarrow> InsertSession \<Rightarrow> Session \<times> MemStorage" where
  "createSession st uuid now ins =
     (let session = \<lparr>s_id = uuid,
                      s_facultyId = is_facultyId ins,
                      s_semester = is_semester ins,
                      s_branch = is_branch ins,
                      s_subject = is_subject ins,
                      s_isActive = True,
                      s_geofencingEnabled =
                        (case is_geofencingEnabled ins of None \<Rightarrow> True | Some b \<Rightarrow> b),
                      s_createdAt = now,
                      s_endedAt = None\<rparr>
      in (session, st\<lparr>sessions := map_set uuid session (sessions st)\<rparr>))"

text \<open>The object spread \<open>{ ...session, ...updates }\<close>: a field of \<open>updates\<close> wins where present.\<close>

definition spread_opt :: "'a \<Rightarrow> 'a option \<Rightarrow> 'a" where
  "spread_opt old upd = (case upd of None \<Rightarrow> old | Some v \<Rightarrow> v)"

definition spreadSession :: "Session \<Rightarrow> SessionUpdates \<Rightarrow> Session" where
  "spreadSession session updates =
     \<lparr>s_id = spread_opt (s_id session) (u_id updates),
      s_facultyId = spread_opt (s_facultyId session) (u_facultyId updates),
      s_semester = spread_opt (s_semester session) (u_semester updates),
      s_branch = spread_opt (s_branch session) (u_branch updates),
      s_subject = spread_opt (s_subject session) (u_subject updates),
      s_isActive = spread_opt (s_isActive session) (u_isActive updates),
      s_geofencingEnabled =
        spread_opt (s_geofencingEnabled session) (u_geofencingEnabled updates),
      s_createdAt = spread_opt (s_createdAt session) (u_createdAt updates),
      s_endedAt = spread_opt (s_endedAt session) (u_endedAt updates)\<rparr>"

definition updateSession :: "MemStorage \<Rightarrow> string \<Rightarrow> SessionUpdates \<Rightarrow> MemStorage" where
  "updateSession st ident updates =
     (case map_of (sessions st) ident of
        None \<Rightarrow> st
      | Some session \<Rightarrow>
          st\<lparr>sessions := map_set ident (spreadSession session updates) (sessions st)\<rparr>)"

subsection \<open>Attendance\<close>

definition getAttendance :: "MemStorage \<Rightarrow> string \<Rightarrow> Attendance list" where
  "getAttendance st sessionId =
     filter (\<lambda>record. a_sessionId record = sessionId) (map_values (attendance st))"

definition createAttendance ::
    "MemStorage \<Rightarrow> string \<Rightarrow> int \<Rightarrow> InsertAttendance \<Rightarrow> Attendance \<times> MemStorage" where
  "createAttendance st uuid now ins =
     (let att = \<lparr>a_id = uuid,
                  a_sessionId = ia_sessionId ins,
                  a_studentId = ia_studentId ins,
                  a_status = ia_status ins,
                  a_geofencingStatus =
                    (case ia_geofencingStatus ins of None \<Rightarrow> Unknown | Some g \<Rightarrow> g),
                  a_latitude = ia_latitude ins,
                  a_longitude = ia_longitude ins,
                  a_markedBy = ia_markedBy ins,
                  a_createdAt = now\<rparr>
      in (att, st\<lparr>attendance := map_set uuid att (attendance st)\<rparr>))"

subsection \<open>QR tokens\<close>

definition getValidToken :: "MemStorage \<Rightarrow> int \<Rightarrow> string \<Rightarrow> QRToken option" where
  "getValidToken st now token =
     find (\<lambda>t. qt_token t = token \<and> qt_expiresAt t > now) (map_values (qrTokens st))"

definition createQRToken ::
    "MemStorage \<Rightarrow> string \<Rightarrow> int \<Rightarrow> InsertQRToken \<Rightarrow> QRToken \<times> MemStorage" where
  "createQRToken st uuid now ins =
     (let qrToken = \<lparr>qt_id = uuid,
                      qt_sessionId = iq_sessionId ins,
                      qt_token = iq_token ins,
                      qt_expiresAt = iq_expiresAt ins,
                      qt_createdAt = now\<rparr>
      in (qrToken, st\<lparr>qrTokens := map_set uuid qrToken (qrTokens st)\<rparr>))"

definition cleanupExpiredTokens :: "MemStorage \<Rightarrow> int \<Rightarrow> MemStorage" where
  "cleanupExpiredTokens st now =
     st\<lparr>qrTokens := filter (\<lambda>(ident, token). \<not> qt_expiresAt token \<le> now) (qrTokens st)\<rparr>"


section \<open>The HTTP handlers (server/routes.ts)\<close>

text \<open>
  A handler takes the store and the parsed request body and returns the response with
  the store it leaves. The body of \<open>POST /api/attendance\<close> is modelled at the type
  \<open>insertAttendanceSchema\<close> gives it, all of whose fields a JSON body can carry.
  \<open>POST /api/qr-tokens\<close> has no counterpart here: \<open>insertQRTokenSchema\<close> wants
  \<open>expiresAt\<close> to be a \<open>Date\<close>, which no JSON body carries, so that route answers 400
  and stores nothing. A store that holds tokens is the result of calls of the storage
  method \<open>createQRToken\<close> itself.
\<close>

definition patchSession :: "MemStorage \<Rightarrow> string \<Rightarrow> SessionUpdates \<Rightarrow> MemStorage" where
  "patchSession st ident body = updateSession st ident body"

definition postAttendance ::
    "MemStorage \<Rightarrow> string \<Rightarrow> int \<Rightarrow> InsertAttendance \<Rightarrow> Attendance \<times> MemStorage" where
  "postAttendance st uuid now body = createAttendance st uuid now body"

record VerifyQRBody =
  vq_sessionId :: string
  vq_token :: string
  vq_studentId :: string
  vq_latitude :: "string option"
  vq_longitude :: "string option"
  vq_geofencingStatus :: "geofencing_status option"

datatype validation = Valid | Invalid

text \<open>
  The token check of the verify-qr handler:
  \<open>if (!qrToken || qrToken.sessionId !== sessionId)\<close> answers "Invalid or expired QR code".
\<close>

definition validateToken :: "MemStorage \<Rightarrow> int \<Rightarrow> string \<Rightarrow> string \<Rightarrow> validation" where
  "validateToken st now sessionId token =
     (case getValidToken st now token of
        None \<Rightarrow> Invalid
      | Some qrToken \<Rightarrow> if qt_sessionId qrToken \<noteq> sessionId then Invalid else Valid)"

datatype verify_response =
    InvalidQRCode
  | AlreadyMarked
  | AttendanceMarked Attendance

text \<open>
  \<open>POST /api/verify-qr\<close>. The handler reads the clock twice: \<open>now\<close> in
  \<open>getValidToken\<close> and \<open>now'\<close> in \<open>createAttendance\<close>. No call of the in-memory store
  throws, so the handler's \<open>catch\<close> (status 500) has no branch here.
\<close>

definition verifyQR ::
    "MemStorage \<Rightarrow> string \<Rightarrow> int \<Rightarrow> int \<Rightarrow> VerifyQRBody \<Rightarrow> verify_response \<times> MemStorage" where
  "verifyQR st uuid now now' body =
     (case validateToken st now (vq_sessionId body) (vq_token body) of
        Invalid \<Rightarrow> (InvalidQRCode, st)
      | Valid \<Rightarrow>
          (let existingAttendance = getAttendance st (vq_sessionId body);
               alreadyMarked =
                 find (\<lambda>record. a_studentId record = vq_studentId body) existingAttendance
           in case alreadyMarked of
                Some _ \<Rightarrow> (AlreadyMarked, st)
              | None \<Rightarrow>
                  (let (att, st') =
                         createAttendance st uuid now'
                           \<lparr>ia_sessionId = vq_sessionId body,
                            ia_studentId = vq_studentId body,
                            ia_status = Present,
                            ia_geofencingStatus =
                              Some (case vq_geofencingStatus body of
                                      None \<Rightarrow> Unknown | Some g \<Rightarrow> g),
                            ia_latitude = vq_latitude body,
                            ia_longitude = vq_longitude body,
                            ia_markedBy = None\<rparr>
                   in (AttendanceMarked att, st'))))"


subsection \<open>The verify-qr handler between its awaits\<close>

text \<open>
  The handler is an \<open>async\<close> function with three \<open>await\<close>s. Each storage method runs
  when it is called; the handler then waits for the promise and other handler calls can
  run before it goes on. A call of the handler is therefore a sequence of four segments:
  up to the first \<open>await\<close> (\<open>getValidToken\<close> has read the tokens), up to the second
  (the token is checked, \<open>getAttendance\<close> has read the records), up to the third (the
  list read earlier is searched, \<open>createAttendance\<close> has inserted), and the response.
  \<open>handler\<close> is where a call stands, with the value it is waiting for.
\<close>

record VerifyQRCall =
  c_body :: VerifyQRBody
  c_uuid :: string
  c_now :: int
  c_now' :: int

datatype handler =
    AtStart
  | AfterGetValidToken "QRToken option"
  | AfterGetAttendance "Attendance list"
  | AfterCreateAttendance Attendance
  | Responded verify_response

fun resume :: "MemStorage \<Rightarrow> VerifyQRCall \<Rightarrow> handler \<Rightarrow> handler \<times> MemStorage" where
  "resume st c AtStart =
     (AfterGetValidToken (getValidToken st (c_now c) (vq_token (c_body c))), st)"
| "resume st c (AfterGetValidToken qrToken) =
     (case qrToken of
        None \<Rightarrow> (Responded InvalidQRCode, st)
      | Some q \<Rightarrow>
          if qt_sessionId q \<noteq> vq_sessionId (c_body c) then (Responded InvalidQRCode, st)
          else (AfterGetAttendance (getAttendance st (vq_sessionId (c_body c))), st))"
| "resume st c (AfterGetAttendance existingAttendance) =
     (case find (\<lambda>record. a_studentId record = vq_studentId (c_body c)) existingAttendance of
        Some _ \<Rightarrow> (Responded AlreadyMarked, st)
      | None \<Rightarrow>
          (let (att, st') =
                 createAttendance st (c_uuid c) (c_now' c)
                   \<lparr>ia_sessionId = vq_sessionId (c_body c),
                    ia_studentId = vq_studentId (c_body c),
                    ia_status = Present,
                    ia_geofencingStatus =
                      Some (case vq_geofencingStatus (c_body c) of
                              None \<Rightarrow> Unknown | Some g \<Rightarrow> g),
                    ia_latitude = vq_latitude (c_body c),
                    ia_longitude = vq_longitude (c_body c),
                    ia_markedBy = None\<rparr>
           in (AfterCreateAttendance att, st')))"
| "resume st c (AfterCreateAttendance att) = (Responded (AttendanceMarked att), st)"
| "resume st c (Responded r) = (Responded r, st)"

text \<open>
  Concurrent calls share the store. A schedule names, step by step, the call that runs
  its next segment; \<open>runSchedule\<close> runs the calls \<open>cs\<close> in that order, from the handler
  states \<open>hs\<close> and the store \<open>st\<close>.
\<close>

fun runSchedule ::
    "VerifyQRCall list \<Rightarrow> nat list \<Rightarrow> handler list \<times> MemStorage \<Rightarrow> handler list \<times> MemStorage" where
  "runSchedule cs [] sys = sys"
| "runSchedule cs (i # schedule) (hs, st) =
     (if i < length hs \<and> i < length cs
      then (let (h', st') = resume st (cs ! i) (hs ! i)
            in runSchedule cs schedule (hs[i := h'], st'))
      else runSchedule cs schedule (hs, st))"

definition succeeded :: "handler \<Rightarrow> bool" where
  "succeeded h = (case h of Responded (AttendanceMarked _) \<Rightarrow> True | _ \<Rightarrow> False)"

definition reportedDuplicate :: "handler \<Rightarrow> bool" where
  "reportedDuplicate h = (case h of Responded AlreadyMarked \<Rightarrow> True | _ \<Rightarrow> False)"

text \<open>
  What the specification asks of N attempts for one pair, of the handler states \<open>hs\<close> a
  schedule ends in: exactly one has succeeded and the other N - 1 have reported a
  duplicate.
\<close>

definition exactlyOneSucceeds :: "handler list \<Rightarrow> bool" where
  "exactlyOneSucceeds hs =
     (length (filter succeeded hs) = 1 \<and>
      length (filter reportedDuplicate hs) = length hs - 1)"


section \<open>The geofence evaluator (client/src/hooks/useGeolocation.tsx)\<close>

text \<open>
  JavaScript numbers are IEEE doubles. Their arithmetic is not code of this repository:
  the rounded product, quotient, sum and difference, \<open>Math.PI\<close>, \<open>Math.sin\<close>, \<open>Math.cos\<close>,
  \<open>Math.sqrt\<close>, \<open>Math.atan2\<close> and the comparison \<open><=\<close>, over values that include NaN.
  It is the parameter \<open>fp\<close>, a record of these operations over a type \<open>'n\<close> of numbers;
  \<open>ar_num\<close> gives the number that a decimal literal, or a reported coordinate, denotes.
\<close>

record 'n Arith =
  ar_num :: "real \<Rightarrow> 'n"
  ar_mul :: "'n \<Rightarrow> 'n \<Rightarrow> 'n"
  ar_div :: "'n \<Rightarrow> 'n \<Rightarrow> 'n"
  ar_add :: "'n \<Rightarrow> 'n \<Rightarrow> 'n"
  ar_sub :: "'n \<Rightarrow> 'n \<Rightarrow> 'n"
  ar_le :: "'n \<Rightarrow> 'n \<Rightarrow> bool"
  ar_PI :: 'n
  ar_sin :: "'n \<Rightarrow> 'n"
  ar_cos :: "'n \<Rightarrow> 'n"
  ar_sqrt :: "'n \<Rightarrow> 'n"
  ar_atan2 :: "'n \<Rightarrow> 'n \<Rightarrow> 'n"

record GeofenceResult =
  isInsideCampus :: bool
  status :: geofencing_status

definition CAMPUS_center_lat :: real where
  "CAMPUS_center_lat = 12.9716"

definition CAMPUS_center_lng :: real where
  "CAMPUS_center_lng = 77.5946"

definition CAMPUS_radius :: real where
  "CAMPUS_radius = 1000"

text \<open>
  \<open>calculateDistance\<close>, operation by operation in the order JavaScript evaluates them:
  \<open>lat1 * Math.PI / 180\<close> is \<open>(lat1 * Math.PI) / 180\<close>, and a product of four factors
  associates to the left.
\<close>

definition calculateDistance :: "'n Arith \<Rightarrow> 'n \<Rightarrow> 'n \<Rightarrow> 'n \<Rightarrow> 'n \<Rightarrow> 'n" where
  "calculateDistance fp lat1 lon1 lat2 lon2 =
     (let R = ar_num fp 6371000;
          phi1 = ar_div fp (ar_mul fp lat1 (ar_PI fp)) (ar_num fp 180);
          phi2 = ar_div fp (ar_mul fp lat2 (ar_PI fp)) (ar_num fp 180);
          dphi = ar_div fp (ar_mul fp (ar_sub fp lat2 lat1) (ar_PI fp)) (ar_num fp 180);
          dlam = ar_div fp (ar_mul fp (ar_sub fp lon2 lon1) (ar_PI fp)) (ar_num fp 180);
          a = ar_add fp
                (ar_mul fp (ar_sin fp (ar_div fp dphi (ar_num fp 2)))
                           (ar_sin fp (ar_div fp dphi (ar_num fp 2))))
                (ar_mul fp
                   (ar_mul fp (ar_mul fp (ar_cos fp phi1) (ar_cos fp phi2))
                              (ar_sin fp (ar_div fp dlam (ar_num fp 2))))
                   (ar_sin fp (ar_div fp dlam (ar_num fp 2))));
          c = ar_mul fp (ar_num fp 2)
                (ar_atan2 fp (ar_sqrt fp a) (ar_sqrt fp (ar_sub fp (ar_num fp 1) a)))
      in ar_mul fp R c)"

text \<open>The value of the local \<open>a\<close> of \<open>calculateDistance\<close>, for the lemmas about it.\<close>

definition calculateDistance_a :: "'n Arith \<Rightarrow> 'n \<Rightarrow> 'n \<Rightarrow> 'n \<Rightarrow> 'n \<Rightarrow> 'n" where
  "calculateDistance_a fp lat1 lon1 lat2 lon2 =
     (let phi1 = ar_div fp (ar_mul fp lat1 (ar_PI fp)) (ar_num fp 180);
          phi2 = ar_div fp (ar_mul fp lat2 (ar_PI fp)) (ar_num fp 180);
          dphi = ar_div fp (ar_mul fp (ar_sub fp lat2 lat1) (ar_PI fp)) (ar_num fp 180);
          dlam = ar_div fp (ar_mul fp (ar_sub fp lon2 lon1) (ar_PI fp)) (ar_num fp 180)
      in ar_add fp
           (ar_mul fp (ar_sin fp (ar_div fp dphi (ar_num fp 2)))
                      (ar_sin fp (ar_div fp dphi (ar_num fp 2))))
           (ar_mul fp
              (ar_mul fp (ar_mul fp (ar_cos fp phi1) (ar_cos fp phi2))
                         (ar_sin fp (ar_div fp dlam (ar_num fp 2))))
              (ar_sin fp (ar_div fp dlam (ar_num fp 2)))))"

text \<open>
  \<open>checkGeofence\<close>. Nothing in its \<open>try\<close> block throws on numbers, so the \<open>catch\<close>
  branch (status unknown) is never taken and has no counterpart here.
\<close>

definition checkGeofence :: "'n Arith \<Rightarrow> real \<Rightarrow> real \<Rightarrow> GeofenceResult" where
  "checkGeofence fp lat lng =
     (let distance = calculateDistance fp (ar_num fp lat) (ar_num fp lng)
                       (ar_num fp CAMPUS_center_lat) (ar_num fp CAMPUS_center_lng);
          inside = ar_le fp distance (ar_num fp CAMPUS_radius)
      in \<lparr>isInsideCampus = inside, status = (if inside then Inside else Outside)\<rparr>)"

subsection \<open>Exact arithmetic and the haversine formula\<close>

text \<open>
  The arithmetic of the real numbers, without rounding: the one in which the haversine
  formula is written. \<open>atan2 y x\<close> is the angle of the point \<open>(x, y)\<close>, with
  \<open>atan2 0 0 = 0\<close>. \<open>sqrt\<close> and \<open>Math.sqrt\<close> differ on negative arguments only, and in
  this arithmetic \<open>calculateDistance\<close> never takes the root of one (lemma
  \<open>haversine_arg_bounds\<close>).
\<close>

definition atan2 :: "real \<Rightarrow> real \<Rightarrow> real" where
  "atan2 y x =
     (if x > 0 then arctan (y / x)
      else if x < 0 then (if y \<ge> 0 then arctan (y / x) + pi else arctan (y / x) - pi)
      else if y > 0 then pi / 2
      else if y < 0 then - (pi / 2)
      else 0)"

definition exactArith :: "real Arith" where
  "exactArith =
     \<lparr>ar_num = (\<lambda>x. x), ar_mul = (\<lambda>x y. x * y), ar_div = (\<lambda>x y. x / y),
      ar_add = (\<lambda>x y. x + y), ar_sub = (\<lambda>x y. x - y), ar_le = (\<lambda>x y. x \<le> y),
      ar_PI = pi, ar_sin = sin, ar_cos = cos, ar_sqrt = sqrt, ar_atan2 = atan2\<rparr>"

text \<open>The value of the local \<open>a\<close> of \<open>calculateDistance\<close> in exact arithmetic.\<close>

definition haversine_a :: "real \<Rightarrow> real \<Rightarrow> real \<Rightarrow> real \<Rightarrow> real" where
  "haversine_a lat1 lon1 lat2 lon2 =
     (let phi1 = lat1 * pi / 180;
          phi2 = lat2 * pi / 180;
          dphi = (lat2 - lat1) * pi / 180;
          dlam = (lon2 - lon1) * pi / 180
      in sin (dphi / 2) * sin (dphi / 2) +
         cos phi1 * cos phi2 * sin (dlam / 2) * sin (dlam / 2))"

text \<open>
  The great-circle distance by the haversine formula, with \<open>hav \<theta> = (1 - cos \<theta>) / 2\<close>:
  \<open>d = 2 R arcsin (sqrt (hav dphi + cos phi1 cos phi2 hav dlam))\<close>, angles in radians.
\<close>

definition radians :: "real \<Rightarrow> real" where
  "radians deg = deg * pi / 180"

definition hav :: "real \<Rightarrow> real" where
  "hav \<theta> = (1 - cos \<theta>) / 2"

definition haversineDistance :: "real \<Rightarrow> real \<times> real \<Rightarrow> real \<times> real \<Rightarrow> real" where
  "haversineDistance R p1 p2 =
     2 * R * arcsin (sqrt (hav (radians (fst p2) - radians (fst p1)) +
                           cos (radians (fst p1)) * cos (radians (fst p2)) *
                           hav (radians (snd p2) - radians (snd p1))))"


section \<open>The student's scan (client/src/components/student/QRScanner.tsx)\<close>

text \<open>
  The object handed to \<open>markAttendance\<close>, and the Firestore document made of it
  (client/src/lib/firebase.ts: \<open>{ ...attendanceData, createdAt: Timestamp.now() }\<close>).
  A field of the object that may be missing is \<open>Undefined\<close>, \<open>Null\<close> or a string:
  \<open>latitude?.toString()\<close> is undefined when \<open>latitude\<close> is null, and \<open>setDoc\<close> refuses
  a field whose value is undefined: it throws and writes nothing. The attendance
  collection is keyed by the document id \<open>doc(attendanceCollection)\<close> generates, taken as
  the argument \<open>docId\<close>.
\<close>

datatype field = Undefined | Null | Text string

record AttendanceData =
  d_sessionId :: string
  d_studentId :: string
  d_status :: attendance_status
  d_geofencingStatus :: geofencing_status
  d_latitude :: field
  d_longitude :: field
  d_markedBy :: field

record AttendanceDoc =
  doc_data :: AttendanceData
  doc_createdAt :: int

datatype firestore_error = UnsupportedFieldValue

definition markAttendance ::
    "(string \<times> AttendanceDoc) list \<Rightarrow> string \<Rightarrow> int \<Rightarrow> AttendanceData
       \<Rightarrow> firestore_error + string \<times> (string \<times> AttendanceDoc) list" where
  "markAttendance coll docId now attendanceData =
     (if d_latitude attendanceData = Undefined \<or> d_longitude attendanceData = Undefined
         \<or> d_markedBy attendanceData = Undefined
      then Inl UnsupportedFieldValue
      else Inr (docId,
                map_set docId \<lparr>doc_data = attendanceData, doc_createdAt = now\<rparr> coll))"

text \<open>
  The parsed QR payload; of its fields only \<open>sessionId\<close> and \<open>token\<close> are tested, and only
  \<open>sessionId\<close> reaches the record (\<open>subject\<close> goes into the toast). A field is falsy when
  it is missing or the empty string.
\<close>

record QRPayload =
  p_sessionId :: "string option"
  p_token :: "string option"

definition truthy :: "string option \<Rightarrow> bool" where
  "truthy v = (case v of None \<Rightarrow> False | Some str \<Rightarrow> str \<noteq> [])"

text \<open>
  Lines 58 to 63 of \<open>processQRCode\<close>: the status starts as unknown, and the geofence is
  asked only under \<open>if (latitude && longitude)\<close>; a coordinate is falsy when it is null
  or 0.
\<close>

definition scanGeofencingStatus ::
    "'n Arith \<Rightarrow> real option \<Rightarrow> real option \<Rightarrow> geofencing_status" where
  "scanGeofencingStatus fp latitude longitude =
     (case latitude of
        None \<Rightarrow> Unknown
      | Some lat \<Rightarrow>
          (case longitude of
             None \<Rightarrow> Unknown
           | Some lng \<Rightarrow>
               if lat \<noteq> 0 \<and> lng \<noteq> 0 then status (checkGeofence fp lat lng) else Unknown))"

text \<open>\<open>latitude?.toString()\<close>, with \<open>numberToString\<close> for \<open>Number.prototype.toString\<close>.\<close>

definition optionalToString :: "(real \<Rightarrow> string) \<Rightarrow> real option \<Rightarrow> field" where
  "optionalToString numberToString coordinate =
     (case coordinate of None \<Rightarrow> Undefined | Some x \<Rightarrow> Text (numberToString x))"

datatype scan_error = NotJSON | InvalidQRFormat | MarkAttendanceFailed firestore_error

text \<open>
  \<open>processQRCode\<close>; \<open>parsed\<close> is the result of \<open>JSON.parse\<close> (\<open>None\<close> when it throws).
  The result is the error the \<open>catch\<close> block reports, or the attendance collection after
  \<open>markAttendance\<close>. \<open>the (p_sessionId parsedData)\<close> is read only where \<open>truthy\<close> has
  found it present.
\<close>

definition processQRCode ::
    "'n Arith \<Rightarrow> (real \<Rightarrow> string) \<Rightarrow> (string \<times> AttendanceDoc) list \<Rightarrow> string \<Rightarrow> int
       \<Rightarrow> string \<Rightarrow> real option \<Rightarrow> real option \<Rightarrow> QRPayload option
       \<Rightarrow> scan_error + (string \<times> AttendanceDoc) list" where
  "processQRCode fp numberToString coll docId now studentId latitude longitude parsed =
     (case parsed of
        None \<Rightarrow> Inl NotJSON
      | Some parsedData \<Rightarrow>
          if \<not> truthy (p_sessionId parsedData) \<or> \<not> truthy (p_token parsedData)
          then Inl InvalidQRFormat
          else
            (let geofencingStatus = scanGeofencingStatus fp latitude longitude
             in case markAttendance coll docId now
                       \<lparr>d_sessionId = the (p_sessionId parsedData),
                        d_studentId = studentId,
                        d_status = Present,
                        d_geofencingStatus = geofencingStatus,
                        d_latitude = optionalToString numberToString latitude,
                        d_longitude = optionalToString numberToString longitude,
                        d_markedBy = Null\<rparr> of
                  Inl e \<Rightarrow> Inl (MarkAttendanceFailed e)
                | Inr (_, coll') \<Rightarrow> Inr coll'))"

definition demoPayload :: QRPayload where
  "demoPayload = \<lparr>p_sessionId = Some ''demo_session_123'',
                  p_token = Some ''TK_1_DataStructures_CS_S3''\<rparr>"


section \<open>Token issuance (client/src/components/faculty/QRGenerator.tsx)\<close>

text \<open>
  A template literal renders an integer-valued number in decimal, with a leading minus
  sign when negative (exponent notation starts at \<open>10^21\<close>, far beyond any clock reading
  or semester). \<open>Date.now()\<close> is the argument \<open>timestamp\<close>. The character class \<open>\s\<close> is
  taken over the 8-bit characters of \<open>string\<close>.
\<close>

definition digitChar :: "nat \<Rightarrow> char" where
  "digitChar d = ''0123456789'' ! d"

fun showNat :: "nat \<Rightarrow> string" where
  "showNat n = (if n < 10 then [digitChar n] else showNat (n div 10) @ [digitChar (n mod 10)])"

declare showNat.simps [simp del]

definition numberString :: "int \<Rightarrow> string" where
  "numberString i = (if i < 0 then CHR ''-'' # showNat (nat (- i)) else showNat (nat i))"

definition isWhitespace :: "char \<Rightarrow> bool" where
  "isWhitespace c = (c \<in> set [CHR '' '', CHR 0x09, CHR 0x0A, CHR 0x0B, CHR 0x0C, CHR 0x0D, CHR 0xA0])"

record SessionData =
  sd_subject :: string
  sd_semester :: int
  sd_branch :: string

definition generateQRToken :: "int \<Rightarrow> SessionData \<Rightarrow> string" where
  "generateQRToken timestamp sessionData =
     ''TK_'' @ numberString timestamp @ ''_'' @
     filter (\<lambda>c. \<not> isWhitespace c) (sd_subject sessionData) @ ''_'' @
     sd_branch sessionData @ ''_S'' @ numberString (sd_semester sessionData)"

text \<open>
  The effect calls \<open>updateQR\<close> when it runs and at every tick of its 2000 ms interval;
  \<open>clock\<close> lists what \<open>Date.now()\<close> returns at those calls, one entry per issuance.
\<close>

definition issueTokens :: "int list \<Rightarrow> SessionData \<Rightarrow> string list" where
  "issueTokens clock sessionData = map (\<lambda>timestamp. generateQRToken timestamp sessionData) clock"

definition demoData :: SessionData where
  "demoData = \<lparr>sd_subject = ''Data Structures'', sd_semester = 3, sd_branch = ''CS''\<rparr>"


section \<open>Stores, requests and scans used as examples\<close>

text \<open>Token stores, each the result of calls of \<open>createQRToken\<close> on the empty store.\<close>

definition tokenA :: InsertQRToken where
  "tokenA = \<lparr>iq_sessionId = ''A'', iq_token = ''X'', iq_expiresAt = 100\<rparr>"

definition oneToken :: MemStorage where
  "oneToken = snd (createQRToken emptyStorage ''t1'' 0 tokenA)"



definition lateToken :: InsertQRToken where
  "lateToken = \<lparr>iq_sessionId = ''s1'', iq_token = ''TK_1'', iq_expiresAt = 6000\<rparr>"

text \<open>Two verify-qr requests of student u1 for session A, with the token of \<open>oneToken\<close>.\<close>

definition scanOfU1 :: VerifyQRBody where
  "scanOfU1 = \<lparr>vq_sessionId = ''A'', vq_token = ''X'', vq_studentId = ''u1'',
               vq_latitude = None, vq_longitude = None, vq_geofencingStatus = None\<rparr>"

definition call1 :: VerifyQRCall where
  "call1 = \<lparr>c_body = scanOfU1, c_uuid = ''a1'', c_now = 50, c_now' = 51\<rparr>"

definition call2 :: VerifyQRCall where
  "call2 = \<lparr>c_body = scanOfU1, c_uuid = ''a2'', c_now = 50, c_now' = 51\<rparr>"

text \<open>
  A verify-qr request without coordinates that carries the status inside, one that
  carries the status unknown, and a body for \<open>POST /api/attendance\<close> without coordinates
  that carries the status inside.
\<close>

definition insideNoCoordinates :: VerifyQRBody where
  "insideNoCoordinates = scanOfU1\<lparr>vq_geofencingStatus := Some Inside\<rparr>"

definition unknownNoCoordinates :: VerifyQRBody where
  "unknownNoCoordinates = scanOfU1\<lparr>vq_geofencingStatus := Some Unknown\<rparr>"

definition unknownRecord :: Attendance where
  "unknownRecord = \<lparr>a_id = ''a1'', a_sessionId = ''A'', a_studentId = ''u1'',
                    a_status = Present, a_geofencingStatus = Unknown,
                    a_latitude = None, a_longitude = None, a_markedBy = None,
                    a_createdAt = 51\<rparr>"

definition directInsideNoCoordinates :: InsertAttendance where
  "directInsideNoCoordinates =
     \<lparr>ia_sessionId = ''A'', ia_studentId = ''u1'', ia_status = Present,
      ia_geofencingStatus = Some Inside, ia_latitude = None, ia_longitude = None,
      ia_markedBy = None\<rparr>"

text \<open>A rendering of coordinates for the examples, right at the two values they use.\<close>

definition showCoordinate :: "real \<Rightarrow> string" where
  "showCoordinate x = (if x = 0 then ''0'' else ''77.6'')"


section \<open>The uniqueness invariant of the attendance store\<close>

definition pairKey :: "Attendance \<Rightarrow> string \<times> string" where
  "pairKey record = (a_sessionId record, a_studentId record)"

definition atMostOne :: "MemStorage \<Rightarrow> bool" where
  "atMostOne st = distinct (map pairKey (map_values (attendance st)))"

definition directBody :: InsertAttendance where
  "directBody = \<lparr>ia_sessionId = ''s1'', ia_studentId = ''u1'', ia_status = Present,
                 ia_geofencingStatus = None, ia_latitude = None, ia_longitude = None,
                 ia_markedBy = None\<rparr>"


section \<open>Token validation as the specification words it\<close>






section \<open>Session updates issued by the dashboard\<close>

text \<open>An update body with no field, and the body \<open>{ isActive: false, endedAt: new Date() }\<close>
  of \<open>handleEndSession\<close> (pages/FacultyDashboard.tsx).\<close>

definition noUpdates :: SessionUpdates where
  "noUpdates = \<lparr>u_id = None, u_facultyId = None, u_semester = None, u_branch = None,
                u_subject = None, u_isActive = None, u_geofencingEnabled = None,
                u_createdAt = None, u_endedAt = None\<rparr>"

definition endSessionUpdates :: "int \<Rightarrow> SessionUpdates" where
  "endSessionUpdates now = noUpdates\<lparr>u_isActive := Some False, u_endedAt := Some (Some now)\<rparr>"

definition demoSession :: InsertSession where
  "demoSession = \<lparr>is_facultyId = ''f1'', is_semester = 3, is_branch = ''CS'',
                  is_subject = ''Data Structures'', is_isActive = None,
                  is_geofencingEnabled = None\<rparr>"

definition openStore :: MemStorage where
  "openStore = snd (createSession emptyStorage ''s1'' 0 demoSession)"

definition endedStore :: MemStorage where
  "endedStore = patchSession openStore ''s1'' (endSessionUpdates 100)"

definition endedSession :: Session where
  "endedSession = \<lparr>s_id = ''s1'', s_facultyId = ''f1'', s_semester = 3, s_branch = ''CS'',
                   s_subject = ''Data Structures'', s_isActive = False,
                   s_geofencingEnabled = True, s_createdAt = 0, s_endedAt = Some 100\<rparr>"


section \<open>Lemmas about the store\<close>

lemma map_of_map_set: "map_of (map_set k v m) k' = (if k' = k then Some v else map_of m k')"
  by (induction m) auto

lemma set_map_set: "set (map_set k v m) \<subseteq> insert (k, v) (set m)"
  by (induction m) (auto split: if_splits)

lemma set_map_set_subset: "snd ` set (map_set k v m) \<subseteq> insert v (snd ` set m)"
  using set_map_set [of k v m] by force

lemma distinct_map_set:
  assumes "distinct (map f (map snd m))" and "f v \<notin> f ` snd ` set m"
  shows "distinct (map f (map snd (map_set k v m)))"
  using assms
proof (induction m)
  case Nil
  then show ?case by simp
next
  case (Cons p m)
  obtain k' v' where p: "p = (k', v')" by (cases p)
  show ?case
  proof (cases "k' = k")
    case True
    with Cons.prems p show ?thesis by auto
  next
    case False
    have sub: "snd ` set (map_set k v m) \<subseteq> insert v (snd ` set m)"
      by (rule set_map_set_subset)
    have "f v' \<notin> f ` snd ` set (map_set k v m)"
    proof
      assume "f v' \<in> f ` snd ` set (map_set k v m)"
      then obtain w where w: "w \<in> snd ` set (map_set k v m)" "f v' = f w" by auto
      from w(1) sub have "w = v \<or> w \<in> snd ` set m" by auto
      then show False
      proof
        assume "w = v"
        with w(2) Cons.prems(2) p show False by auto
      next
        assume "w \<in> snd ` set m"
        with w(2) Cons.prems(1) p show False by (auto simp: image_iff)
      qed
    qed
    moreover have "distinct (map f (map snd (map_set k v m)))"
      using Cons.IH Cons.prems p by auto
    ultimately show ?thesis using p False by (simp add: image_image)
  qed
qed

lemma find_None_pair:
  assumes "find (\<lambda>record. a_studentId record = u) (getAttendance st s) = None"
  shows "(s, u) \<notin> pairKey ` snd ` set (attendance st)"
  using assms
  by (auto simp: find_None_iff getAttendance_def map_values_def pairKey_def)

text \<open>
  The verify-qr handler keeps the invariant when its requests are served one after
  another: it inserts only after finding no record of the pair.
\<close>

lemma verifyQR_preserves_atMostOne:
  assumes "atMostOne st" and "verifyQR st uuid now now' body = (resp, st')"
  shows "atMostOne st'"
proof (cases "validateToken st now (vq_sessionId body) (vq_token body)")
  case Invalid
  with assms show ?thesis by (simp add: verifyQR_def)
next
  case Valid
  show ?thesis
  proof (cases "find (\<lambda>record. a_studentId record = vq_studentId body)
                  (getAttendance st (vq_sessionId body))")
    case (Some r)
    with Valid assms show ?thesis by (simp add: verifyQR_def)
  next
    case None
    from find_None_pair [OF None]
    have fresh: "(vq_sessionId body, vq_studentId body) \<notin> pairKey ` snd ` set (attendance st)" .
    from Valid None assms(2) obtain att where
      st': "st' = st\<lparr>attendance := map_set uuid att (attendance st)\<rparr>"
      and att: "pairKey att = (vq_sessionId body, vq_studentId body)"
      by (auto simp: verifyQR_def createAttendance_def pairKey_def Let_def)
    from assms(1) have "distinct (map pairKey (map snd (attendance st)))"
      by (simp add: atMostOne_def map_values_def)
    then have "distinct (map pairKey (map snd (map_set uuid att (attendance st))))"
      using fresh att by (intro distinct_map_set) simp_all
    then show ?thesis by (simp add: st' atMostOne_def map_values_def)
  qed
qed

text \<open>
  Once a scan has been recorded, a later scan of the same student for the same session,
  served after it with a token that validates, is answered "already marked" and leaves
  the store as it is.
\<close>

lemma map_set_mem: "(k, v) \<in> set (map_set k v m)"
  by (induction m) auto

lemma verifyQR_rescan_rejected:
  assumes first: "verifyQR st uuid now now' body = (AttendanceMarked att, st')"
    and valid: "validateToken st' t (vq_sessionId body2) (vq_token body2) = Valid"
    and same: "vq_sessionId body2 = vq_sessionId body" "vq_studentId body2 = vq_studentId body"
  shows "verifyQR st' uuid2 t t' body2 = (AlreadyMarked, st')"
proof -
  from first have st': "attendance st' = map_set uuid att (attendance st)"
    and att: "a_sessionId att = vq_sessionId body" "a_studentId att = vq_studentId body"
    by (auto simp: verifyQR_def createAttendance_def Let_def
        split: validation.splits option.splits)
  have "att \<in> snd ` set (attendance st')"
    unfolding st' using map_set_mem [of uuid att "attendance st"] by force
  with att same have "att \<in> set (getAttendance st' (vq_sessionId body2))"
    by (simp add: getAttendance_def map_values_def)
  with att same have
    "find (\<lambda>record. a_studentId record = vq_studentId body2)
       (getAttendance st' (vq_sessionId body2)) \<noteq> None"
    by (auto simp: find_None_iff)
  with valid show ?thesis
    by (auto simp: verifyQR_def Let_def)
qed

text \<open>
  The four segments of a call, run with no other call in between, are the handler as a
  whole.
\<close>

lemma segments_are_verifyQR:
  "runSchedule [c] [0, 0, 0, 0] ([AtStart], st) =
     ([Responded (fst (verifyQR st (c_uuid c) (c_now c) (c_now' c) (c_body c)))],
      snd (verifyQR st (c_uuid c) (c_now c) (c_now' c) (c_body c)))"
proof (cases "getValidToken st (c_now c) (vq_token (c_body c))")
  case None
  then show ?thesis by (simp add: verifyQR_def validateToken_def)
next
  case (Some q)
  show ?thesis
  proof (cases "qt_sessionId q \<noteq> vq_sessionId (c_body c)")
    case True
    with Some show ?thesis by (simp add: verifyQR_def validateToken_def)
  next
    case False
    show ?thesis
    proof (cases "find (\<lambda>record. a_studentId record = vq_studentId (c_body c))
                    (getAttendance st (vq_sessionId (c_body c)))")
      case None
      with Some False show ?thesis
        by (simp add: verifyQR_def validateToken_def Let_def split: prod.splits)
    next
      case (Some r)
      with \<open>getValidToken st (c_now c) (vq_token (c_body c)) = Some q\<close> False show ?thesis
        by (simp add: verifyQR_def validateToken_def Let_def)
    qed
  qed
qed






text \<open>
  A scan with a coordinate absent hands \<open>markAttendance\<close> an undefined field and stores
  nothing.
\<close>

lemma processQRCode_absent_coordinate:
  assumes "latitude = None \<or> longitude = None"
  shows "processQRCode fp numberToString coll docId now studentId latitude longitude parsed
           \<noteq> Inr coll'"
  using assms
  by (auto simp: processQRCode_def markAttendance_def optionalToString_def Let_def
      split: option.splits if_splits)


section \<open>Lemmas about the haversine computation\<close>

lemma hav_sin: "sin (x / 2) * sin (x / 2) = hav x"
proof -
  have "cos x = 1 - 2 * (sin (x / 2))\<^sup>2"
    using cos_double_sin [of "x / 2"] by simp
  then show ?thesis by (simp add: hav_def power2_eq_square)
qed

lemma haversine_a_hav:
  "haversine_a lat1 lon1 lat2 lon2 =
     hav (radians lat2 - radians lat1) +
     cos (radians lat1) * cos (radians lat2) * hav (radians lon2 - radians lon1)"
proof -
  have d1: "(lat2 - lat1) * pi / 180 = radians lat2 - radians lat1"
    by (simp add: radians_def algebra_simps diff_divide_distrib)
  have d2: "(lon2 - lon1) * pi / 180 = radians lon2 - radians lon1"
    by (simp add: radians_def algebra_simps diff_divide_distrib)
  show ?thesis
    unfolding haversine_a_def Let_def d1 d2
    by (simp add: hav_sin mult.assoc radians_def)
qed

lemma hav_bounds: "0 \<le> hav x" "hav x \<le> 1"
  using cos_le_one [of x] cos_ge_minus_one [of x] by (simp_all add: hav_def)

lemma haversine_arg_bounds:
  "0 \<le> haversine_a lat1 lon1 lat2 lon2" "haversine_a lat1 lon1 lat2 lon2 \<le> 1"
proof -
  define p1 where "p1 = radians lat1"
  define p2 where "p2 = radians lat2"
  define h where "h = hav (radians lon2 - radians lon1)"
  define g where "g = hav (p2 - p1)"
  define p where "p = cos p1 * cos p2"
  have a: "haversine_a lat1 lon1 lat2 lon2 = g + p * h"
    by (simp add: haversine_a_hav g_def p_def h_def p1_def p2_def)
  have h: "0 \<le> h" "h \<le> 1" by (simp_all add: h_def hav_bounds)
  have g: "0 \<le> g" "g \<le> 1" by (simp_all add: g_def hav_bounds)
  have gp: "g + p = hav (pi - (p1 + p2))"
    by (simp add: g_def p_def hav_def cos_diff cos_add field_simps)
  have gm: "1 - g - p = hav (p1 + p2)"
    by (simp add: g_def p_def hav_def cos_diff cos_add field_simps)
  have "0 \<le> (1 - h) * g + h * (g + p)"
    using h g hav_bounds(1) [of "pi - (p1 + p2)"] unfolding gp
    by (intro add_nonneg_nonneg mult_nonneg_nonneg) simp_all
  also have "(1 - h) * g + h * (g + p) = g + p * h" by (simp add: algebra_simps)
  finally show "0 \<le> haversine_a lat1 lon1 lat2 lon2" by (simp add: a)
  have "0 \<le> (1 - h) * (1 - g) + h * (1 - g - p)"
    using h g hav_bounds(1) [of "p1 + p2"] unfolding gm
    by (intro add_nonneg_nonneg mult_nonneg_nonneg) simp_all
  also have "(1 - h) * (1 - g) + h * (1 - g - p) = 1 - (g + p * h)" by (simp add: algebra_simps)
  finally show "haversine_a lat1 lon1 lat2 lon2 \<le> 1" by (simp add: a)
qed

lemma atan2_sqrt_arcsin:
  assumes "0 \<le> a" "a \<le> 1"
  shows "atan2 (sqrt a) (sqrt (1 - a)) = arcsin (sqrt a)"
proof (cases "a = 1")
  case True
  then show ?thesis by (simp add: atan2_def)
next
  case False
  with assms have lt: "a < 1" by simp
  then have pos: "sqrt (1 - a) > 0" by simp
  have s: "0 \<le> sqrt a" "sqrt a < 1" using assms lt by simp_all
  let ?t = "arcsin (sqrt a)"
  have b: "- (pi / 2) < ?t" "?t < pi / 2"
    using arcsin_lt_bounded [of "sqrt a"] s by simp_all
  have s': "- 1 \<le> sqrt a" "sqrt a \<le> 1" using s by linarith+
  have sn: "sin ?t = sqrt a" by (rule sin_arcsin) (rule s')+
  have "cos ?t = sqrt (1 - (sqrt a)\<^sup>2)" by (rule cos_arcsin) (rule s')+
  then have cs: "cos ?t = sqrt (1 - a)" using assms by simp
  have "tan ?t = sqrt a / sqrt (1 - a)" by (simp add: tan_def sn cs)
  then have "arctan (sqrt a / sqrt (1 - a)) = ?t"
    using arctan_tan [of ?t] b by simp
  with pos show ?thesis by (simp add: atan2_def)
qed

lemma calculateDistance_exact:
  "calculateDistance exactArith lat1 lon1 lat2 lon2 =
     6371000 * (2 * atan2 (sqrt (haversine_a lat1 lon1 lat2 lon2))
                          (sqrt (1 - haversine_a lat1 lon1 lat2 lon2)))"
  by (simp add: calculateDistance_def exactArith_def haversine_a_def Let_def)

lemma calculateDistance_haversine:
  "calculateDistance exactArith lat1 lon1 lat2 lon2
     = haversineDistance 6371000 (lat1, lon1) (lat2, lon2)"
proof -
  have "atan2 (sqrt (haversine_a lat1 lon1 lat2 lon2)) (sqrt (1 - haversine_a lat1 lon1 lat2 lon2))
        = arcsin (sqrt (haversine_a lat1 lon1 lat2 lon2))"
    by (rule atan2_sqrt_arcsin) (rule haversine_arg_bounds)+
  then show ?thesis
    by (simp add: calculateDistance_exact haversineDistance_def haversine_a_hav)
qed

lemma haversineDistance_sym: "haversineDistance R p1 p2 = haversineDistance R p2 p1"
proof -
  have e: "hav (x - y) = hav (y - x)" for x y
    using cos_minus [of "x - y"] by (simp add: hav_def)
  show ?thesis
    unfolding haversineDistance_def e [of "radians (fst p2)"] e [of "radians (snd p2)"]
    by (simp add: mult.commute)
qed

lemma haversineDistance_self: "haversineDistance R p p = 0"
  by (simp add: haversineDistance_def hav_def)

lemma haversine_spec_arg:
  "hav (radians lat2 - radians lat1) +
     cos (radians lat1) * cos (radians lat2) * hav (radians lon2 - radians lon1) \<in> {0..1}"
  using haversine_arg_bounds [of lat1 lon1 lat2 lon2] by (simp add: haversine_a_hav)

lemma haversineDistance_nonneg: "0 \<le> R \<Longrightarrow> 0 \<le> haversineDistance R p1 p2"
proof -
  assume R: "0 \<le> R"
  let ?a = "hav (radians (fst p2) - radians (fst p1)) +
     cos (radians (fst p1)) * cos (radians (fst p2)) * hav (radians (snd p2) - radians (snd p1))"
  have "0 \<le> ?a" "?a \<le> 1" using haversine_spec_arg [of "fst p2" "fst p1" "snd p2" "snd p1"] by simp_all
  then have "0 \<le> sqrt ?a" "sqrt ?a \<le> 1" by simp_all
  then have "0 \<le> arcsin (sqrt ?a)" 
    using arcsin_le_arcsin [of 0 "sqrt ?a"] by simp
  with R show ?thesis by (simp add: haversineDistance_def)
qed

text \<open>
  In exact arithmetic the distance is symmetric, 0 between a point and itself, and
  never negative.
\<close>

lemma calculateDistance_exact_properties:
  "calculateDistance exactArith lat1 lon1 lat2 lon2
     = calculateDistance exactArith lat2 lon2 lat1 lon1 \<and>
   calculateDistance exactArith lat lon lat lon = 0 \<and>
   0 \<le> calculateDistance exactArith lat1 lon1 lat2 lon2"
  using haversineDistance_sym [of 6371000 "(lat1, lon1)" "(lat2, lon2)"]
    haversineDistance_self [of 6371000 "(lat, lon)"]
    haversineDistance_nonneg [of 6371000 "(lat1, lon1)" "(lat2, lon2)"]
  by (simp add: calculateDistance_haversine)

text \<open>
  In whatever arithmetic, the result is made of the local \<open>a\<close> by two roots, \<open>atan2\<close>
  and two products; so where the root of \<open>1 - a\<close> is a value \<open>nan\<close> that \<open>atan2\<close> and
  the product hand on, the distance is \<open>nan\<close>.
\<close>

lemma calculateDistance_of_a:
  "calculateDistance fp lat1 lon1 lat2 lon2 =
     ar_mul fp (ar_num fp 6371000)
       (ar_mul fp (ar_num fp 2)
          (ar_atan2 fp (ar_sqrt fp (calculateDistance_a fp lat1 lon1 lat2 lon2))
             (ar_sqrt fp (ar_sub fp (ar_num fp 1) (calculateDistance_a fp lat1 lon1 lat2 lon2)))))"
  by (simp add: calculateDistance_def calculateDistance_a_def Let_def)

lemma calculateDistance_nan:
  assumes "ar_sqrt fp (ar_sub fp (ar_num fp 1) (calculateDistance_a fp lat1 lon1 lat2 lon2)) = nan"
    and "\<And>x. ar_atan2 fp x nan = nan" and "\<And>x. ar_mul fp x nan = nan"
  shows "calculateDistance fp lat1 lon1 lat2 lon2 = nan"
  using assms by (simp add: calculateDistance_of_a)

lemma calculateDistance_a_exact:
  "calculateDistance_a exactArith lat1 lon1 lat2 lon2 = haversine_a lat1 lon1 lat2 lon2"
  by (simp add: calculateDistance_a_def exactArith_def haversine_a_def Let_def)


section \<open>Lemmas about token strings\<close>

lemma digitChar_inj: "d < 10 \<Longrightarrow> e < 10 \<Longrightarrow> digitChar d = digitChar e \<Longrightarrow> d = e"
proof -
  assume a: "d < 10" "e < 10" "digitChar d = digitChar e"
  have "distinct ''0123456789''" by simp
  moreover have "d < length ''0123456789''" "e < length ''0123456789''" using a by simp_all
  ultimately show "d = e" using a(3) unfolding digitChar_def
    by (simp only: nth_eq_iff_index_eq)
qed

lemma digitChar_mem: "d < 10 \<Longrightarrow> digitChar d \<in> set ''0123456789''"
  unfolding digitChar_def by (rule nth_mem) simp

lemma showNat_digits: "set (showNat n) \<subseteq> set ''0123456789''"
proof (induction n rule: showNat.induct)
  case (1 n)
  show ?case
  proof (cases "n < 10")
    case True
    then show ?thesis using digitChar_mem [of n] by (subst showNat.simps) simp
  next
    case False
    have "n mod 10 < 10" by simp
    then have "digitChar (n mod 10) \<in> set ''0123456789''" by (rule digitChar_mem)
    with False 1 show ?thesis by (subst showNat.simps) simp
  qed
qed

lemma showNat_nonempty: "showNat n \<noteq> []"
  by (subst showNat.simps) simp

lemma showNat_inj: "showNat n = showNat m \<Longrightarrow> n = m"
proof (induction n arbitrary: m rule: showNat.induct)
  case (1 n)
  show ?case
  proof (cases "n < 10")
    case n: True
    show ?thesis
    proof (cases "m < 10")
      case True
      with n "1.prems" show ?thesis
        by (simp add: showNat.simps [of n] showNat.simps [of m] digitChar_inj)
    next
      case False
      with n "1.prems" showNat_nonempty [of "m div 10"] show ?thesis
        by (simp add: showNat.simps [of n] showNat.simps [of m])
    qed
  next
    case n: False
    show ?thesis
    proof (cases "m < 10")
      case True
      with n "1.prems" showNat_nonempty [of "n div 10"] show ?thesis
        by (simp add: showNat.simps [of n] showNat.simps [of m])
    next
      case False
      with n "1.prems" have e: "showNat (n div 10) = showNat (m div 10)"
          and d: "digitChar (n mod 10) = digitChar (m mod 10)"
        by (simp_all add: showNat.simps [of n] showNat.simps [of m])
      from "1.IH" [OF n e] have "n div 10 = m div 10" .
      moreover from d have "n mod 10 = m mod 10" by (intro digitChar_inj) simp_all
      ultimately show ?thesis by (metis div_mult_mod_eq)
    qed
  qed
qed

lemma numberString_inj: "numberString i = numberString j \<Longrightarrow> i = j"
proof -
  assume e: "numberString i = numberString j"
  have nd: "hd (showNat n) \<noteq> CHR ''-''" for n
  proof -
    have "hd (showNat n) \<in> set (showNat n)" using showNat_nonempty by simp
    with showNat_digits [of n] have "hd (showNat n) \<in> set ''0123456789''" by blast
    then show ?thesis by auto
  qed
  show ?thesis
  proof (cases "i < 0")
    case i: True
    show ?thesis
    proof (cases "j < 0")
      case True
      with i e have "nat (- i) = nat (- j)" by (auto simp: numberString_def dest: showNat_inj)
      with i True show ?thesis by simp
    next
      case False
      with i e have "showNat (nat j) = CHR ''-'' # showNat (nat (- i))" by (simp add: numberString_def)
      with nd [of "nat j"] show ?thesis by simp
    qed
  next
    case i: False
    show ?thesis
    proof (cases "j < 0")
      case True
      with i e have "showNat (nat i) = CHR ''-'' # showNat (nat (- j))" by (simp add: numberString_def)
      with nd [of "nat i"] show ?thesis by simp
    next
      case False
      with i e have "nat i = nat j" by (auto simp: numberString_def dest: showNat_inj)
      with i False show ?thesis by simp
    qed
  qed
qed

lemma numberString_no_underscore: "CHR ''_'' \<notin> set (numberString i)"
proof -
  have "CHR ''_'' \<notin> set (showNat n)" for n
    using showNat_digits [of n] by auto
  then show ?thesis by (simp add: numberString_def)
qed

lemma prefix_before_separator:
  assumes "xs @ c # ys = xs' @ c # ys'" and "c \<notin> set xs" and "c \<notin> set xs'"
  shows "xs = xs'"
proof -
  have t: "c \<notin> set zs \<Longrightarrow> takeWhile (\<lambda>x. x \<noteq> c) (zs @ c # ws) = zs" for zs ws
    by (induction zs) auto
  have "takeWhile (\<lambda>x. x \<noteq> c) (xs @ c # ys) = xs" using assms(2) by (rule t)
  moreover have "takeWhile (\<lambda>x. x \<noteq> c) (xs' @ c # ys') = xs'" using assms(3) by (rule t)
  ultimately show ?thesis using assms(1) by simp
qed

lemma generateQRToken_timestamp:
  assumes "generateQRToken t1 sd1 = generateQRToken t2 sd2"
  shows "t1 = t2"
proof -
  from assms have "numberString t1 @ CHR ''_'' # (filter (\<lambda>c. \<not> isWhitespace c) (sd_subject sd1) @ ''_'' @
     sd_branch sd1 @ ''_S'' @ numberString (sd_semester sd1))
     = numberString t2 @ CHR ''_'' # (filter (\<lambda>c. \<not> isWhitespace c) (sd_subject sd2) @ ''_'' @
     sd_branch sd2 @ ''_S'' @ numberString (sd_semester sd2))"
    by (simp add: generateQRToken_def)
  then have "numberString t1 = numberString t2"
    by (rule prefix_before_separator) (rule numberString_no_underscore)+
  then show ?thesis by (rule numberString_inj)
qed


section \<open>Claims\<close>

text \<open>
  C1. The claim: in every reachable state at most one attendance record exists for a
  (sessionId, studentId) pair, and every marking operation keeps it so. The verify-qr
  handler checks for an existing record before it inserts (lemma
  \<open>verifyQR_preserves_atMostOne\<close>); the direct creation path \<open>POST /api/attendance\<close>
  calls \<open>createAttendance\<close> with no such check. Evaluated here: two direct creations
  with the same pair, starting from the empty store, leave two records of that pair.
\<close>

theorem postAttendance_duplicates_pair:
  "atMostOne emptyStorage \<and>
   \<not> atMostOne (snd (postAttendance
                       (snd (postAttendance emptyStorage ''id1'' 10 directBody))
                       ''id2'' 20 directBody)) \<and>
   map pairKey (getAttendance
                  (snd (postAttendance
                          (snd (postAttendance emptyStorage ''id1'' 10 directBody))
                          ''id2'' 20 directBody)) ''s1'')
     = [(''s1'', ''u1''), (''s1'', ''u1'')]"
  by (simp add: atMostOne_def emptyStorage_def postAttendance_def createAttendance_def
      directBody_def map_values_def pairKey_def getAttendance_def Let_def)

text \<open>
  C2. The claim: of any number of concurrent marking attempts for one
  (sessionId, studentId) pair, under every interleaving exactly one succeeds and the
  others report a duplicate. The handler looks for an existing record and inserts in two
  different segments, with an \<open>await\<close> between them. Evaluated here, on a store with one
  valid token: two calls for student u1 and session A whose segments alternate both
  find no record and both insert; both answer "attendance marked", none reports a
  duplicate, and the store holds two records of the pair. Served one after the other,
  the same two calls give one success and one duplicate.
\<close>

theorem verifyQR_interleaved_both_succeed:
  "\<not> exactlyOneSucceeds
     (fst (runSchedule [call1, call2] [0, 1, 0, 1, 0, 1, 0, 1] ([AtStart, AtStart], oneToken))) \<and>
   length (filter succeeded
     (fst (runSchedule [call1, call2] [0, 1, 0, 1, 0, 1, 0, 1] ([AtStart, AtStart], oneToken)))) = 2 \<and>
   length (filter reportedDuplicate
     (fst (runSchedule [call1, call2] [0, 1, 0, 1, 0, 1, 0, 1] ([AtStart, AtStart], oneToken)))) = 0 \<and>
   map pairKey (getAttendance
     (snd (runSchedule [call1, call2] [0, 1, 0, 1, 0, 1, 0, 1] ([AtStart, AtStart], oneToken))) ''A'')
     = [(''A'', ''u1''), (''A'', ''u1'')] \<and>
   \<not> atMostOne
     (snd (runSchedule [call1, call2] [0, 1, 0, 1, 0, 1, 0, 1] ([AtStart, AtStart], oneToken))) \<and>
   atMostOne oneToken \<and>
   exactlyOneSucceeds
     (fst (runSchedule [call1, call2] [0, 0, 0, 0, 1, 1, 1, 1] ([AtStart, AtStart], oneToken))) \<and>
   atMostOne
     (snd (runSchedule [call1, call2] [0, 0, 0, 0, 1, 1, 1, 1] ([AtStart, AtStart], oneToken)))"
  by (simp add: call1_def call2_def scanOfU1_def oneToken_def tokenA_def createQRToken_def
      emptyStorage_def getValidToken_def getAttendance_def createAttendance_def
      map_values_def succeeded_def reportedDuplicate_def exactlyOneSucceeds_def
      atMostOne_def pairKey_def Let_def)




text \<open>
  C5, as stated. For every QRToken record created, expiresAt - createdAt is 2000 ms.
  \<open>createQRToken\<close> stores the expiresAt its caller passes and stamps createdAt itself:
  called at time 1000 with an expiresAt of 6000, it creates a record whose lifetime is
  5000 ms. (The call is one of the storage method; the route \<open>POST /api/qr-tokens\<close>,
  its only caller in the repository, accepts no JSON body.)
\<close>

theorem createQRToken_interval_counterexample:
  "qt_expiresAt (fst (createQRToken emptyStorage ''t1'' 1000 lateToken))
     - qt_createdAt (fst (createQRToken emptyStorage ''t1'' 1000 lateToken)) = 5000 \<and>
   map_option (\<lambda>q. qt_expiresAt q - qt_createdAt q)
     (map_of (qrTokens (snd (createQRToken emptyStorage ''t1'' 1000 lateToken))) ''t1'')
     = Some 5000"
  by (simp add: createQRToken_def lateToken_def emptyStorage_def Let_def)

text \<open>
  C5, amended. The record \<open>createQRToken\<close> stores has createdAt equal to the time of the
  call and expiresAt equal to the value the caller supplied, so expiresAt - createdAt is
  2000 ms exactly when the caller supplied the time of the call plus 2000.
\<close>

theorem createQRToken_interval:
  "createQRToken st uuid now ins = (q, st') \<Longrightarrow>
     map_of (qrTokens st') uuid = Some q \<and>
     qt_createdAt q = now \<and> qt_expiresAt q = iq_expiresAt ins \<and>
     (qt_expiresAt q - qt_createdAt q = 2000) = (iq_expiresAt ins = now + 2000)"
  by (auto simp: createQRToken_def Let_def map_of_map_set)

theorem createQRToken_interval_witness:
  "createQRToken emptyStorage ''t1'' 1000 (lateToken\<lparr>iq_expiresAt := 3000\<rparr>)
     = (\<lparr>qt_id = ''t1'', qt_sessionId = ''s1'', qt_token = ''TK_1'', qt_expiresAt = 3000,
         qt_createdAt = 1000\<rparr>,
        emptyStorage\<lparr>qrTokens :=
          [(''t1'', \<lparr>qt_id = ''t1'', qt_sessionId = ''s1'', qt_token = ''TK_1'',
                     qt_expiresAt = 3000, qt_createdAt = 1000\<rparr>)]\<rparr>) \<and>
   qt_expiresAt \<lparr>qt_id = ''t1'', qt_sessionId = ''s1'', qt_token = ''TK_1'',
                 qt_expiresAt = 3000, qt_createdAt = 1000\<rparr>
     - qt_createdAt \<lparr>qt_id = ''t1'', qt_sessionId = ''s1'', qt_token = ''TK_1'',
                     qt_expiresAt = 3000, qt_createdAt = 1000\<rparr> = 2000"
proof -
  have c: "createQRToken emptyStorage ''t1'' 1000 (lateToken\<lparr>iq_expiresAt := 3000\<rparr>)
     = (\<lparr>qt_id = ''t1'', qt_sessionId = ''s1'', qt_token = ''TK_1'', qt_expiresAt = 3000,
         qt_createdAt = 1000\<rparr>,
        emptyStorage\<lparr>qrTokens :=
          [(''t1'', \<lparr>qt_id = ''t1'', qt_sessionId = ''s1'', qt_token = ''TK_1'',
                     qt_expiresAt = 3000, qt_createdAt = 1000\<rparr>)]\<rparr>)"
    by (simp add: createQRToken_def lateToken_def emptyStorage_def Let_def)
  from createQRToken_interval [OF c] c show ?thesis by simp
qed

text \<open>
  C6, as stated. A session's isActive changes only from true to false, endedAt is set
  exactly once, and no operation reactivates an ended session or changes its endedAt.
  \<open>updateSession\<close> spreads whatever fields the PATCH body carries over the stored
  session: on a session ended at time 100, the body \<open>{ isActive: true, endedAt: 999 }\<close>
  makes it active again and rewrites endedAt.
\<close>

theorem patchSession_reactivation_counterexample:
  "map_option s_isActive (getSession endedStore ''s1'') = Some False \<and>
   map_option s_endedAt (getSession endedStore ''s1'') = Some (Some 100) \<and>
   map_option s_isActive
     (getSession (patchSession endedStore ''s1''
        (noUpdates\<lparr>u_isActive := Some True, u_endedAt := Some (Some 999)\<rparr>)) ''s1'')
     = Some True \<and>
   map_option s_endedAt
     (getSession (patchSession endedStore ''s1''
        (noUpdates\<lparr>u_isActive := Some True, u_endedAt := Some (Some 999)\<rparr>)) ''s1'')
     = Some (Some 999)"
  by (simp add: endedStore_def openStore_def patchSession_def updateSession_def
      createSession_def getSession_def emptyStorage_def demoSession_def noUpdates_def
      endSessionUpdates_def spreadSession_def spread_opt_def Let_def)

text \<open>
  C6, amended. A session is created active with endedAt unset. An update of a stored
  session replaces isActive, and endedAt, exactly when the update supplies that field
  and leaves it as it was otherwise; so the end-session update
  \<open>{ isActive: false, endedAt: t }\<close> leaves the session inactive with endedAt \<open>t\<close>, and
  an ended session stays ended with its endedAt under every update that supplies
  neither field.
\<close>

theorem updateSession_isActive_endedAt:
  "s_isActive (fst (createSession st0 uuid t0 ins)) \<and>
   s_endedAt (fst (createSession st0 uuid t0 ins)) = None \<and>
   (getSession st ident = Some s \<longrightarrow>
      map_option s_isActive (getSession (updateSession st ident u) ident)
        = Some (case u_isActive u of None \<Rightarrow> s_isActive s | Some b \<Rightarrow> b) \<and>
      map_option s_endedAt (getSession (updateSession st ident u) ident)
        = Some (case u_endedAt u of None \<Rightarrow> s_endedAt s | Some e \<Rightarrow> e) \<and>
      map_option s_isActive
          (getSession (updateSession st ident (endSessionUpdates t)) ident) = Some False \<and>
      map_option s_endedAt
          (getSession (updateSession st ident (endSessionUpdates t)) ident) = Some (Some t))"
  by (simp add: createSession_def getSession_def updateSession_def map_of_map_set
      spreadSession_def spread_opt_def endSessionUpdates_def noUpdates_def Let_def)

theorem updateSession_isActive_endedAt_witness:
  "getSession endedStore ''s1'' = Some endedSession \<and>
   map_option s_isActive
     (getSession (updateSession endedStore ''s1'' (noUpdates\<lparr>u_subject := Some ''Algorithms''\<rparr>))
        ''s1'') = Some False \<and>
   map_option s_endedAt
     (getSession (updateSession endedStore ''s1'' (noUpdates\<lparr>u_subject := Some ''Algorithms''\<rparr>))
        ''s1'') = Some (Some 100)"
proof -
  have g: "getSession endedStore ''s1'' = Some endedSession"
    by (simp add: endedStore_def openStore_def patchSession_def updateSession_def
        createSession_def getSession_def emptyStorage_def demoSession_def noUpdates_def
        endSessionUpdates_def spreadSession_def spread_opt_def endedSession_def Let_def)
  from updateSession_isActive_endedAt
         [where st = endedStore and ident = "''s1''" and s = endedSession
            and u = "noUpdates\<lparr>u_subject := Some ''Algorithms''\<rparr>"] g
  show ?thesis by (simp add: noUpdates_def endedSession_def)
qed

text \<open>
  C9, as stated. Whenever the student's coordinates are absent, the classification and
  the geofencingStatus stored on the resulting attendance record are unknown. The
  verify-qr handler stores the status the request carries and never looks at the
  coordinates: a request without latitude and longitude that carries the status inside
  is recorded as inside. So does \<open>POST /api/attendance\<close> for a body without
  coordinates that carries inside.
\<close>

theorem verifyQR_absent_coordinates_inside_counterexample:
  "vq_latitude insideNoCoordinates = None \<and> vq_longitude insideNoCoordinates = None \<and>
   map_option (\<lambda>r. (a_latitude r, a_longitude r, a_geofencingStatus r))
     (map_of (attendance (snd (verifyQR oneToken ''a1'' 50 51 insideNoCoordinates))) ''a1'')
     = Some (None, None, Inside) \<and>
   map_option (\<lambda>r. (a_latitude r, a_longitude r, a_geofencingStatus r))
     (map_of (attendance (snd (postAttendance emptyStorage ''a1'' 51 directInsideNoCoordinates)))
        ''a1'')
     = Some (None, None, Inside)"
  by (simp add: insideNoCoordinates_def scanOfU1_def directInsideNoCoordinates_def
      verifyQR_def validateToken_def getValidToken_def getAttendance_def postAttendance_def
      createAttendance_def oneToken_def tokenA_def createQRToken_def emptyStorage_def
      map_values_def Let_def)

text \<open>
  C9, amended. When the student's latitude or longitude is absent, the scan classifies
  the location as unknown. The record the verify-qr handler creates carries the
  geofencingStatus of the request, and unknown when the request carries none, whatever
  the coordinates of the request are; for a request that carries the scan's
  classification of absent coordinates, the stored status is therefore unknown.
\<close>

theorem absent_coordinates_unknown:
  "(latitude = None \<or> longitude = None \<longrightarrow>
      scanGeofencingStatus fp latitude longitude = Unknown) \<and>
   (verifyQR st uuid t t' body = (AttendanceMarked att, st') \<longrightarrow>
      a_geofencingStatus att
        = (case vq_geofencingStatus body of None \<Rightarrow> Unknown | Some g \<Rightarrow> g) \<and>
      map_of (attendance st') uuid = Some att)"
proof -
  have u: "scanGeofencingStatus fp latitude longitude = Unknown"
    if "latitude = None \<or> longitude = None"
    using that by (auto simp: scanGeofencingStatus_def split: option.splits)
  have server: "a_geofencingStatus att
        = (case vq_geofencingStatus body of None \<Rightarrow> Unknown | Some g \<Rightarrow> g) \<and>
      map_of (attendance st') uuid = Some att"
    if "verifyQR st uuid t t' body = (AttendanceMarked att, st')"
    using that
    by (auto simp: verifyQR_def createAttendance_def map_of_map_set Let_def
        split: validation.splits option.splits)
  from u server show ?thesis by blast
qed

theorem absent_coordinates_unknown_witness:
  "((None :: real option) = None \<or> Some (77.6 :: real) = None) \<and>
   scanGeofencingStatus exactArith None (Some 77.6) = Unknown \<and>
   vq_geofencingStatus unknownNoCoordinates
     = Some (scanGeofencingStatus exactArith None (Some 77.6)) \<and>
   verifyQR oneToken ''a1'' 50 51 unknownNoCoordinates
     = (AttendanceMarked unknownRecord, oneToken\<lparr>attendance := [(''a1'', unknownRecord)]\<rparr>) \<and>
   a_geofencingStatus unknownRecord = Unknown \<and>
   map_of (attendance (oneToken\<lparr>attendance := [(''a1'', unknownRecord)]\<rparr>)) ''a1''
     = Some unknownRecord"
proof -
  have h: "(None :: real option) = None \<or> Some (77.6 :: real) = None" by simp
  have v: "verifyQR oneToken ''a1'' 50 51 unknownNoCoordinates
     = (AttendanceMarked unknownRecord, oneToken\<lparr>attendance := [(''a1'', unknownRecord)]\<rparr>)"
    by (simp add: verifyQR_def validateToken_def getValidToken_def getAttendance_def
        createAttendance_def unknownNoCoordinates_def scanOfU1_def unknownRecord_def
        oneToken_def createQRToken_def emptyStorage_def tokenA_def map_values_def Let_def)
  have b: "vq_geofencingStatus unknownNoCoordinates
     = Some (scanGeofencingStatus exactArith None (Some 77.6))"
    by (simp add: unknownNoCoordinates_def scanGeofencingStatus_def)
  from absent_coordinates_unknown [where latitude = None and longitude = "Some 77.6"
      and fp = exactArith and body = unknownNoCoordinates and st = oneToken
      and uuid = "''a1''" and t = 50 and t' = 51 and att = unknownRecord
      and st' = "oneToken\<lparr>attendance := [(''a1'', unknownRecord)]\<rparr>"] b v h
  show ?thesis by (simp add: unknownNoCoordinates_def)
qed

text \<open>
  C10. A reported latitude or longitude of exactly 0 is treated by the scan as if the
  location were absent: the status submitted is unknown, which is not an answer of the
  geofence evaluator (it answers inside or outside only), and the coordinates, the zero
  included, are still attached to the submitted record.
\<close>

theorem zero_coordinate_unknown_but_attached:
  "latitude = Some 0 \<or> longitude = Some 0 \<Longrightarrow>
     scanGeofencingStatus fp latitude longitude = Unknown \<and>
     status (checkGeofence fp lat lng) \<noteq> Unknown \<and>
     (processQRCode fp numberToString coll docId now studentId latitude longitude parsed
        = Inr coll' \<longrightarrow>
      map_option (\<lambda>d. d_geofencingStatus (doc_data d)) (map_of coll' docId) = Some Unknown \<and>
      map_option (\<lambda>d. d_latitude (doc_data d)) (map_of coll' docId)
        = Some (optionalToString numberToString latitude) \<and>
      map_option (\<lambda>d. d_longitude (doc_data d)) (map_of coll' docId)
        = Some (optionalToString numberToString longitude))"
proof -
  assume zero: "latitude = Some 0 \<or> longitude = Some 0"
  then have u: "scanGeofencingStatus fp latitude longitude = Unknown"
    by (auto simp: scanGeofencingStatus_def split: option.splits)
  have e: "status (checkGeofence fp lat lng) \<noteq> Unknown"
    by (simp add: checkGeofence_def Let_def)
  have scan: "map_option (\<lambda>d. d_geofencingStatus (doc_data d)) (map_of coll' docId) = Some Unknown \<and>
      map_option (\<lambda>d. d_latitude (doc_data d)) (map_of coll' docId)
        = Some (optionalToString numberToString latitude) \<and>
      map_option (\<lambda>d. d_longitude (doc_data d)) (map_of coll' docId)
        = Some (optionalToString numberToString longitude)"
    if "processQRCode fp numberToString coll docId now studentId latitude longitude parsed
          = Inr coll'"
    using that u
    by (auto simp: processQRCode_def markAttendance_def map_of_map_set Let_def
        split: option.splits if_splits)
  from u e scan show ?thesis by blast
qed

theorem zero_coordinate_unknown_but_attached_witness:
  "(Some (0 :: real) = Some 0 \<or> Some (77.6 :: real) = Some 0) \<and>
   processQRCode exactArith showCoordinate [] ''d1'' 5 ''u1'' (Some 0) (Some 77.6)
       (Some demoPayload)
     = Inr [(''d1'', \<lparr>doc_data = \<lparr>d_sessionId = ''demo_session_123'', d_studentId = ''u1'',
                                   d_status = Present, d_geofencingStatus = Unknown,
                                   d_latitude = Text ''0'', d_longitude = Text ''77.6'',
                                   d_markedBy = Null\<rparr>,
                       doc_createdAt = 5\<rparr>)]"
proof -
  have h: "Some (0 :: real) = Some 0 \<or> Some (77.6 :: real) = Some 0" by simp
  have p: "processQRCode exactArith showCoordinate [] ''d1'' 5 ''u1'' (Some 0) (Some 77.6)
       (Some demoPayload)
     = Inr [(''d1'', \<lparr>doc_data = \<lparr>d_sessionId = ''demo_session_123'', d_studentId = ''u1'',
                                   d_status = Present, d_geofencingStatus = Unknown,
                                   d_latitude = Text ''0'', d_longitude = Text ''77.6'',
                                   d_markedBy = Null\<rparr>,
                       doc_createdAt = 5\<rparr>)]"
    by (simp add: processQRCode_def markAttendance_def demoPayload_def truthy_def
        scanGeofencingStatus_def showCoordinate_def optionalToString_def Let_def)
  from zero_coordinate_unknown_but_attached [OF h, where fp = exactArith
      and numberToString = showCoordinate
      and coll = "[]" and docId = "''d1''" and now = 5 and studentId = "''u1''"
      and parsed = "Some demoPayload"] p h
  show ?thesis by simp
qed

text \<open>
  C7, as stated. Each issued token string has an unpredictable component, and two
  issuances for one session never give the same string. \<open>generateQRToken\<close> builds the
  string from the clock reading and the session's subject, branch and semester alone:
  the token issued at 1700000000000 for Data Structures, CS, semester 3 is
  \<open>TK_1700000000000_DataStructures_CS_S3\<close>, and two issuances within that millisecond
  give that string twice.
\<close>

theorem generateQRToken_collision_counterexample:
  "issueTokens [1700000000000, 1700000000000] demoData
     = [''TK_1700000000000_DataStructures_CS_S3'', ''TK_1700000000000_DataStructures_CS_S3''] \<and>
   \<not> distinct (issueTokens [1700000000000, 1700000000000] demoData)"
  by (simp add: issueTokens_def generateQRToken_def numberString_def showNat.simps
      digitChar_def demoData_def isWhitespace_def)

text \<open>
  C7, amended. An issued token string is \<open>TK_\<close>, the clock reading in milliseconds, the
  subject without whitespace, the branch and \<open>S\<close> with the semester, joined by
  underscores: it is a function of the clock reading and the session data. Two
  issuances whose clock readings differ give different token strings.
\<close>

theorem generateQRToken_distinct_timestamps:
  "t1 \<noteq> t2 \<Longrightarrow> generateQRToken t1 sd1 \<noteq> generateQRToken t2 sd2"
  using generateQRToken_timestamp [of t1 sd1 t2 sd2] by blast

theorem generateQRToken_distinct_timestamps_witness:
  "(1700000000000 :: int) \<noteq> 1700000002000 \<and>
   generateQRToken 1700000000000 demoData = ''TK_1700000000000_DataStructures_CS_S3'' \<and>
   generateQRToken 1700000002000 demoData = ''TK_1700000002000_DataStructures_CS_S3'' \<and>
   generateQRToken 1700000000000 demoData \<noteq> generateQRToken 1700000002000 demoData"
proof -
  have h: "(1700000000000 :: int) \<noteq> 1700000002000" by simp
  have e1: "generateQRToken 1700000000000 demoData = ''TK_1700000000000_DataStructures_CS_S3''"
    by (simp add: generateQRToken_def numberString_def showNat.simps
        digitChar_def demoData_def isWhitespace_def)
  have e2: "generateQRToken 1700000002000 demoData = ''TK_1700000002000_DataStructures_CS_S3''"
    by (simp add: generateQRToken_def numberString_def showNat.simps
        digitChar_def demoData_def isWhitespace_def)
  from generateQRToken_distinct_timestamps [OF h, of demoData demoData] h e1 e2
  show ?thesis by blast
qed

end
